theory Spec2Isabelle
  imports Complex_Main "HOL-Library.Sublist"
begin

section \<open>Python values used by the invoice tool\<close>

text \<open>
  The development embeds \<^verbatim>\<open>function_app.py\<close> (the \<^verbatim>\<open>analyze_invoice\<close> tool, its argument
  helper and the identifier resolver) and \<^verbatim>\<open>content_understanding_service.py\<close> (the
  configuration resolver, the client manager and the orchestrator).

  Exceptions are values: a class and the text that \<^verbatim>\<open>str(exc)\<close> gives. Only the classes
  the two files raise or catch are listed, with two more (\<open>KeyError\<close>, \<open>RuntimeError\<close>)
  standing for classes that no handler of the files names.
\<close>

datatype exn_class =
    TypeError
  | JSONDecodeError
  | AttributeError
  | ValueError
  | OSError
  | FileNotFoundError
  | KeyError
  | RuntimeError
  | AzureContentUnderstandingClientError
  | ContentUnderstandingServiceError

datatype exn = Exn exn_class string

text \<open>
  The class hierarchy as far as the handlers see it: \<^verbatim>\<open>json.JSONDecodeError\<close> derives from
  \<^verbatim>\<open>ValueError\<close>, \<^verbatim>\<open>FileNotFoundError\<close> from \<^verbatim>\<open>OSError\<close>, and
  \<^verbatim>\<open>ContentUnderstandingServiceError\<close> is declared as a \<^verbatim>\<open>RuntimeError\<close>.
\<close>

definition is_subclass :: "exn_class \<Rightarrow> exn_class \<Rightarrow> bool" where
  "is_subclass c d =
     (c = d
      \<or> (c = JSONDecodeError \<and> d = ValueError)
      \<or> (c = FileNotFoundError \<and> d = OSError)
      \<or> (c = ContentUnderstandingServiceError \<and> d = RuntimeError))"

fun isinstance :: "exn \<Rightarrow> exn_class \<Rightarrow> bool" where
  "isinstance (Exn c m) d = is_subclass c d"

fun exn_str :: "exn \<Rightarrow> string" where
  "exn_str (Exn c m) = m"

text \<open>
  A Python float is a finite number, an infinity or NaN. Every ordering comparison with
  NaN is false, which is what \<^verbatim>\<open>value <= 0\<close> sees.
\<close>

datatype pyfloat = Finite real | PosInf | NegInf | NaN

fun float_le_zero :: "pyfloat \<Rightarrow> bool" where
  "float_le_zero (Finite r) = (r \<le> 0)"
| "float_le_zero PosInf = False"
| "float_le_zero NegInf = True"
| "float_le_zero NaN = False"

fun float_gt_zero :: "pyfloat \<Rightarrow> bool" where
  "float_gt_zero (Finite r) = (0 < r)"
| "float_gt_zero PosInf = True"
| "float_gt_zero NegInf = False"
| "float_gt_zero NaN = False"

text \<open>
  What \<^verbatim>\<open>json.loads\<close> produces and \<^verbatim>\<open>json.dumps\<close> consumes. A dict is an association list
  in insertion order, its keys distinct; \<^verbatim>\<open>d.get(k)\<close> is \<open>map_of d k\<close>.
\<close>

datatype json =
    JNull
  | JBool bool
  | JInt int
  | JFloat pyfloat
  | JStr string
  | JArr "json list"
  | JObj "(string \<times> json) list"

fun json_opt_str :: "string option \<Rightarrow> json" where
  "json_opt_str None = JNull"
| "json_opt_str (Some s) = JStr s"

subsection \<open>Strings\<close>

text \<open>
  A character is a code point below 256, so a string is a text of the Latin-1 range; code
  points beyond it are outside the model. \<^verbatim>\<open>str.strip()\<close> removes the leading and trailing
  characters for which \<^verbatim>\<open>str.isspace\<close> holds: in this range the ASCII white space, the
  separators U+001C to U+001F, U+0085 and U+00A0. \<^verbatim>\<open>str.lower()\<close> maps A..Z to a..z and the
  capital letters U+00C0 to U+00DE (U+00D7, the multiplication sign, is none) to the
  letters 32 places further on.
\<close>

definition isspace :: "char \<Rightarrow> bool" where
  "isspace c =
     (c \<in> set [CHR '' '', CHR 0x09, CHR 0x0A, CHR 0x0B, CHR 0x0C, CHR 0x0D,
                CHR 0x1C, CHR 0x1D, CHR 0x1E, CHR 0x1F, CHR 0x85, CHR 0xA0])"

definition strip :: "string \<Rightarrow> string" where
  "strip s = rev (dropWhile isspace (rev (dropWhile isspace s)))"

definition upper_letters :: string where
  "upper_letters =
     ''ABCDEFGHIJKLMNOPQRSTUVWXYZ''
     @ [CHR 0xC0, CHR 0xC1, CHR 0xC2, CHR 0xC3, CHR 0xC4, CHR 0xC5, CHR 0xC6, CHR 0xC7,
        CHR 0xC8, CHR 0xC9, CHR 0xCA, CHR 0xCB, CHR 0xCC, CHR 0xCD, CHR 0xCE, CHR 0xCF,
        CHR 0xD0, CHR 0xD1, CHR 0xD2, CHR 0xD3, CHR 0xD4, CHR 0xD5, CHR 0xD6,
        CHR 0xD8, CHR 0xD9, CHR 0xDA, CHR 0xDB, CHR 0xDC, CHR 0xDD, CHR 0xDE]"

definition lower_letters :: string where
  "lower_letters =
     ''abcdefghijklmnopqrstuvwxyz''
     @ [CHR 0xE0, CHR 0xE1, CHR 0xE2, CHR 0xE3, CHR 0xE4, CHR 0xE5, CHR 0xE6, CHR 0xE7,
        CHR 0xE8, CHR 0xE9, CHR 0xEA, CHR 0xEB, CHR 0xEC, CHR 0xED, CHR 0xEE, CHR 0xEF,
        CHR 0xF0, CHR 0xF1, CHR 0xF2, CHR 0xF3, CHR 0xF4, CHR 0xF5, CHR 0xF6,
        CHR 0xF8, CHR 0xF9, CHR 0xFA, CHR 0xFB, CHR 0xFC, CHR 0xFD, CHR 0xFE]"

definition lower_char :: "char \<Rightarrow> char" where
  "lower_char c =
     (case map_of (zip upper_letters lower_letters) c of
        Some l \<Rightarrow> l
      | None \<Rightarrow> c)"

definition lower :: "string \<Rightarrow> string" where
  "lower s = map lower_char s"

text \<open>\<^verbatim>\<open>x or d\<close> for an optional string \<open>x\<close>: \<open>None\<close> and the empty string are falsy.\<close>

fun py_or :: "string option \<Rightarrow> string \<Rightarrow> string" where
  "py_or None d = d"
| "py_or (Some v) d = (if v = [] then d else v)"

text \<open>\<^verbatim>\<open>x or y\<close> for two optional strings, and \<^verbatim>\<open>x or None\<close>.\<close>

fun py_or_opt :: "string option \<Rightarrow> string option \<Rightarrow> string option" where
  "py_or_opt None y = y"
| "py_or_opt (Some v) y = (if v = [] then y else Some v)"

fun truthy :: "string option \<Rightarrow> bool" where
  "truthy None = False"
| "truthy (Some v) = (v \<noteq> [])"

subsection \<open>Paths\<close>

text \<open>
  The function host runs on Linux, so \<^verbatim>\<open>Path\<close> is \<^verbatim>\<open>PosixPath\<close>. \<open>split_slash\<close> is
  \<^verbatim>\<open>s.split('/')\<close>; \<open>path_parts\<close> is \<^verbatim>\<open>Path(s).parts\<close>: the anchor (\<^verbatim>\<open>/\<close>, or \<^verbatim>\<open>//\<close> for
  exactly two leading slashes) followed by the components that are neither empty nor
  \<^verbatim>\<open>.\<close>.

  An absolute, resolved path is kept as the list of its components below \<^verbatim>\<open>/\<close>;
  \<open>path_str\<close> is its \<^verbatim>\<open>str()\<close> and \<open>path_name\<close> its \<^verbatim>\<open>.name\<close>.
\<close>

fun split_slash :: "string \<Rightarrow> string list" where
  "split_slash [] = [[]]"
| "split_slash (c # cs) =
     (if c = CHR ''/'' then [] # split_slash cs
      else (case split_slash cs of
              [] \<Rightarrow> [[c]]
            | w # ws \<Rightarrow> (c # w) # ws))"

definition is_absolute :: "string \<Rightarrow> bool" where
  "is_absolute s = (case s of [] \<Rightarrow> False | c # cs \<Rightarrow> c = CHR ''/'')"

definition path_anchor :: "string \<Rightarrow> string list" where
  "path_anchor s =
     (if is_absolute s then
        (if take 2 s = ''//'' \<and> take 3 s \<noteq> ''///'' then [''//''] else [''/''])
      else [])"

definition path_parts :: "string \<Rightarrow> string list" where
  "path_parts s = path_anchor s @ filter (\<lambda>p. p \<noteq> [] \<and> p \<noteq> ''.'') (split_slash s)"

type_synonym path = "string list"

definition path_str :: "path \<Rightarrow> string" where
  "path_str p = (if p = [] then ''/'' else concat (map (\<lambda>c. CHR ''/'' # c) p))"

definition path_name :: "path \<Rightarrow> string" where
  "path_name p = (if p = [] then [] else last p)"

text \<open>
  The relation the specification calls descendant: below the root, and not the root itself.
\<close>

definition is_descendant :: "path \<Rightarrow> path \<Rightarrow> bool" where
  "is_descendant base p = strict_prefix base p"

section \<open>The world outside the two files\<close>

text \<open>
  Everything the files call but do not define is a parameter: the process environment
  (\<^verbatim>\<open>os.getenv\<close>), the builtin \<^verbatim>\<open>float()\<close> (\<open>None\<close> is its \<^verbatim>\<open>ValueError\<close>),
  \<^verbatim>\<open>mimetypes.guess_type\<close>, the file system, the value of \<^verbatim>\<open>_DATA_DIRECTORY\<close>, the constructors
  of the credential and of \<^verbatim>\<open>AzureContentUnderstandingClient\<close> (\<open>Some e\<close> when they raise \<open>e\<close>),
  and the client's \<^verbatim>\<open>begin_analyze\<close> and \<^verbatim>\<open>poll_result\<close>.

  The file system answers \<^verbatim>\<open>Path.resolve()\<close> (which follows symbolic links), \<^verbatim>\<open>Path.exists()\<close>
  and \<^verbatim>\<open>Path.stat()\<close>. Each of them may raise: \<^verbatim>\<open>exists()\<close> passes on every \<^verbatim>\<open>OSError\<close> other
  than the few it reads as absence (a component longer than the file system allows gives
  errno 36), \<^verbatim>\<open>resolve()\<close> raises \<^verbatim>\<open>ValueError\<close> on a NUL character and \<^verbatim>\<open>RuntimeError\<close> on a loop
  of links. The file system may change between two calls, so each answer also depends on
  the moment of the call, which is the number of events recorded before it.

  Each call that reaches outside the process is recorded as an event, in order. What the
  calls to \<^verbatim>\<open>logging\<close> write is left out; the file-system calls made to build the arguments of
  the log call of line 112 are kept.
\<close>

datatype event =
    GetEnv string
  | FsResolve path
  | FsExists path
  | FsStat path
  | NewCredential
  | NewClient
  | BeginAnalyze string string "string option"
  | PollResult string

record client_handle =
  cl_endpoint :: string
  cl_api_version :: string
  cl_token_provider :: bool
  cl_subscription_key :: "string option"
  cl_user_agent :: string

record externals =
  getenv :: "string \<Rightarrow> string option"
  float_builtin :: "string \<Rightarrow> pyfloat option"
  guess_type :: "string \<Rightarrow> string option"
  fs_resolve :: "nat \<Rightarrow> path \<Rightarrow> exn + path"
  fs_exists :: "nat \<Rightarrow> path \<Rightarrow> exn + bool"
  fs_stat :: "nat \<Rightarrow> path \<Rightarrow> exn option"
  data_directory :: path
  credential_ctor :: "exn option"
  client_ctor :: "client_handle \<Rightarrow> exn option"
  begin_analyze :: "client_handle \<Rightarrow> string \<Rightarrow> string \<Rightarrow> string option \<Rightarrow> exn + string"
  poll_result :: "client_handle \<Rightarrow> string \<Rightarrow> pyfloat \<Rightarrow> pyfloat \<Rightarrow> exn + json"

section \<open>Data model\<close>

text \<open>\<^verbatim>\<open>InvoiceAnalysisRequest\<close> and \<^verbatim>\<open>_ServiceConfig\<close>, the two frozen dataclasses.\<close>

record invoice_analysis_request =
  req_file_path :: path
  req_content_type :: "string option"
  req_file_name :: "string option"
  req_analyzer_id :: "string option"

record service_config =
  cfg_endpoint :: string
  cfg_analyzer_id :: string
  cfg_api_version :: string
  cfg_user_agent :: string
  cfg_poll_interval_seconds :: pyfloat
  cfg_poll_timeout_seconds :: pyfloat
  cfg_subscription_key :: "string option"

text \<open>The dict \<^verbatim>\<open>_load_invoice_from_data\<close> returns: keys \<^verbatim>\<open>path\<close>, \<^verbatim>\<open>content_type\<close>, \<^verbatim>\<open>file_name\<close>.\<close>

record stored_file =
  sf_path :: path
  sf_content_type :: "string option"
  sf_file_name :: string

text \<open>
  The mutable state of the process: the three attributes of the
  \<^verbatim>\<open>ContentUnderstandingService\<close> instance, and the events so far.
\<close>

record state =
  svc_config :: "service_config option"
  svc_credential :: "unit option"
  svc_client :: "client_handle option"
  events :: "event list"

definition emit :: "event \<Rightarrow> state \<Rightarrow> state" where
  "emit e s = s\<lparr>events := events s @ [e]\<rparr>"

text \<open>The moment of a call made in state \<open>s\<close>.\<close>

definition now :: "state \<Rightarrow> nat" where
  "now s = length (events s)"

section \<open>The identifier resolver\<close>

text \<open>
  \<^verbatim>\<open>_load_invoice_from_data\<close> (function_app.py, lines 227 to 260), in the two parts it is
  written in. \<open>Inl\<close> is the exception raised: \<^verbatim>\<open>ValueError\<close> is the specification's
  InvalidReference, \<^verbatim>\<open>FileNotFoundError\<close> its NotFound.

  \<open>validate_identifier\<close> is lines 228 to 241, the checks on the text of the identifier:
  it gives the relative path that is joined to the data directory, the leading component
  dropped when it is the directory's own name in any letter case.
\<close>

definition validate_identifier :: "path \<Rightarrow> string \<Rightarrow> exn + path" where
  "validate_identifier data_dir invoice_id =
     (let sanitized_id = strip invoice_id in
      if sanitized_id = [] then
        Inl (Exn ValueError ''invoiceId must be a relative path inside the data directory.'')
      else if is_absolute sanitized_id \<or> ''..'' \<in> set (path_parts sanitized_id) then
        Inl (Exn ValueError
          ''invoiceId must not be absolute or traverse outside the data directory.'')
      else
        let request_parts = path_parts sanitized_id;
            data_segment = lower (path_name data_dir)
        in case request_parts of
             [] \<Rightarrow> Inr []
           | p0 # rest \<Rightarrow>
               if lower p0 = data_segment then
                 (if rest = [] then
                    Inl (Exn ValueError
                      ''invoiceId must specify a file within the data directory.'')
                  else Inr rest)
               else Inr request_parts)"

text \<open>
  Lines 243 to 260: the joined path is resolved, tested with
  \<^verbatim>\<open>str(target_path).startswith(str(data_root))\<close>, and looked up on the file system. An
  exception of \<^verbatim>\<open>resolve()\<close> or \<^verbatim>\<open>exists()\<close> leaves the function as it is.
\<close>

definition load_invoice_from_data ::
    "externals \<Rightarrow> state \<Rightarrow> string \<Rightarrow> (exn + stored_file) \<times> state" where
  "load_invoice_from_data ext s invoice_id =
     (case validate_identifier (data_directory ext) invoice_id of
        Inl e \<Rightarrow> (Inl e, s)
      | Inr request_path \<Rightarrow>
          let data_root = data_directory ext;
              s1 = emit (FsResolve (data_root @ request_path)) s
          in case fs_resolve ext (now s) (data_root @ request_path) of
               Inl e \<Rightarrow> (Inl e, s1)
             | Inr target_path \<Rightarrow>
                 if \<not> prefix (path_str data_root) (path_str target_path) then
                   (Inl (Exn ValueError ''invoiceId must resolve inside the data directory.''), s1)
                 else
                   let s2 = emit (FsExists target_path) s1
                   in case fs_exists ext (now s1) target_path of
                        Inl e \<Rightarrow> (Inl e, s2)
                      | Inr found \<Rightarrow>
                          if \<not> found then
                            (Inl (Exn FileNotFoundError (path_str target_path)), s2)
                          else
                            (Inr \<lparr>sf_path = target_path,
                                  sf_content_type = guess_type ext (path_name target_path),
                                  sf_file_name = path_name target_path\<rparr>, s2))"

section \<open>The configuration resolver\<close>

text \<open>The class constants of \<^verbatim>\<open>ContentUnderstandingService\<close>.\<close>

definition DEFAULT_ANALYZER_ID :: string where
  "DEFAULT_ANALYZER_ID = ''prebuilt-invoice''"

definition DEFAULT_API_VERSION :: string where
  "DEFAULT_API_VERSION = ''2025-05-01-preview''"

definition DEFAULT_USER_AGENT :: string where
  "DEFAULT_USER_AGENT = ''remote-mcp-functions-python/1.0''"

definition DEFAULT_POLL_INTERVAL_SECONDS :: pyfloat where
  "DEFAULT_POLL_INTERVAL_SECONDS = Finite 2"

definition DEFAULT_POLL_TIMEOUT_SECONDS :: pyfloat where
  "DEFAULT_POLL_TIMEOUT_SECONDS = Finite 180"

text \<open>
  \<^verbatim>\<open>_get_float_env\<close> (lines 190 to 201): the default when the variable is unset, when
  \<^verbatim>\<open>float()\<close> raises \<^verbatim>\<open>ValueError\<close>, and when \<^verbatim>\<open>value <= 0\<close>; the parsed value otherwise.
\<close>

definition get_float_env ::
    "externals \<Rightarrow> state \<Rightarrow> string \<Rightarrow> pyfloat \<Rightarrow> pyfloat \<times> state" where
  "get_float_env ext s name dflt =
     (let s1 = emit (GetEnv name) s in
      case getenv ext name of
        None \<Rightarrow> (dflt, s1)
      | Some raw_value \<Rightarrow>
          (case float_builtin ext raw_value of
             None \<Rightarrow> (dflt, s1)
           | Some v \<Rightarrow> if float_le_zero v then (dflt, s1) else (v, s1)))"

text \<open>
  \<^verbatim>\<open>_ensure_configuration\<close> (lines 123 to 166). An instance of the dataclass is truthy, so
  \<^verbatim>\<open>if self._config\<close> asks whether the cache is filled.
\<close>

definition ensure_configuration ::
    "externals \<Rightarrow> state \<Rightarrow> (exn + service_config) \<times> state" where
  "ensure_configuration ext s =
     (case svc_config s of
        Some cached \<Rightarrow> (Inr cached, s)
      | None \<Rightarrow>
          let s1 = emit (GetEnv ''CONTENT_UNDERSTANDING_API_VERSION'')
                     (emit (GetEnv ''CONTENT_UNDERSTANDING_ANALYZER_ID'')
                       (emit (GetEnv ''CONTENT_UNDERSTANDING_API_KEY'')
                         (emit (GetEnv ''CONTENT_UNDERSTANDING_ENDPOINT'') s)));
              endpoint = strip (py_or (getenv ext ''CONTENT_UNDERSTANDING_ENDPOINT'') []);
              key = strip (py_or (getenv ext ''CONTENT_UNDERSTANDING_API_KEY'') []);
              subscription_key = (if key = [] then None else Some key);
              analyzer_id0 =
                strip (py_or (getenv ext ''CONTENT_UNDERSTANDING_ANALYZER_ID'') DEFAULT_ANALYZER_ID);
              api_version0 =
                strip (py_or (getenv ext ''CONTENT_UNDERSTANDING_API_VERSION'') DEFAULT_API_VERSION);
              analyzer_id = (if analyzer_id0 = [] then DEFAULT_ANALYZER_ID else analyzer_id0);
              api_version = (if api_version0 = [] then DEFAULT_API_VERSION else api_version0)
          in if endpoint = [] then
               (Inl (Exn ContentUnderstandingServiceError
                  ''CONTENT_UNDERSTANDING_ENDPOINT is required to call Azure AI Content Understanding.''),
                s1)
             else
               let s2 = emit (GetEnv ''CONTENT_UNDERSTANDING_USER_AGENT'') s1;
                   user_agent =
                     strip (py_or (getenv ext ''CONTENT_UNDERSTANDING_USER_AGENT'') DEFAULT_USER_AGENT);
                   (poll_interval, s3) =
                     get_float_env ext s2 ''CONTENT_UNDERSTANDING_POLL_INTERVAL_SECONDS''
                       DEFAULT_POLL_INTERVAL_SECONDS;
                   (poll_timeout, s4) =
                     get_float_env ext s3 ''CONTENT_UNDERSTANDING_POLL_TIMEOUT_SECONDS''
                       DEFAULT_POLL_TIMEOUT_SECONDS;
                   config = \<lparr>cfg_endpoint = endpoint,
                             cfg_analyzer_id = analyzer_id,
                             cfg_api_version = api_version,
                             cfg_user_agent = user_agent,
                             cfg_poll_interval_seconds = poll_interval,
                             cfg_poll_timeout_seconds = poll_timeout,
                             cfg_subscription_key = subscription_key\<rparr>
               in (Inr config, s4\<lparr>svc_config := Some config\<rparr>))"

section \<open>The client manager\<close>

text \<open>
  \<^verbatim>\<open>_ensure_client\<close> (lines 168 to 188). Without a subscription key a credential is built
  and its bearer-token provider handed to the client; with one, neither is.
\<close>

definition ensure_client ::
    "externals \<Rightarrow> state \<Rightarrow> service_config \<Rightarrow> (exn + client_handle) \<times> state" where
  "ensure_client ext s config =
     (case svc_client s of
        Some cached \<Rightarrow> (Inr cached, s)
      | None \<Rightarrow>
          let delegated = \<not> truthy (cfg_subscription_key config);
              s1 = (if delegated then emit NewCredential s else s)
          in case (if delegated then credential_ctor ext else None) of
               Some e \<Rightarrow> (Inl e, s1)
             | None \<Rightarrow>
                 let handle = \<lparr>cl_endpoint = cfg_endpoint config,
                               cl_api_version = cfg_api_version config,
                               cl_token_provider = delegated,
                               cl_subscription_key = cfg_subscription_key config,
                               cl_user_agent = cfg_user_agent config\<rparr>;
                     s2 = emit NewClient s1
                 in case client_ctor ext handle of
                      Some e \<Rightarrow> (Inl e, s2)
                    | None \<Rightarrow>
                        (Inr handle,
                         s2\<lparr>svc_client := Some handle,
                            svc_credential := (if delegated then Some () else None)\<rparr>))"

section \<open>The orchestrator\<close>

text \<open>Line 78: \<^verbatim>\<open>(request.analyzer_id or config.analyzer_id or "").strip()\<close>.\<close>

definition effective_analyzer_id :: "invoice_analysis_request \<Rightarrow> service_config \<Rightarrow> string" where
  "effective_analyzer_id request config =
     strip (py_or (req_analyzer_id request) (py_or (Some (cfg_analyzer_id config)) []))"

text \<open>\<^verbatim>\<open>_build_analysis_response\<close> (lines 203 to 217).\<close>

definition build_analysis_response ::
    "string \<Rightarrow> invoice_analysis_request \<Rightarrow> service_config \<Rightarrow> json \<Rightarrow> json" where
  "build_analysis_response analyzer_id request config result =
     JObj [(''analyzerId'', JStr analyzer_id),
           (''apiVersion'', JStr (cfg_api_version config)),
           (''contentType'', json_opt_str (req_content_type request)),
           (''fileName'', json_opt_str (req_file_name request)),
           (''result'', result)]"

text \<open>
  The handler of lines 102 to 110: the three caught classes are re-raised as
  \<^verbatim>\<open>ContentUnderstandingServiceError\<close>, any other exception passes through.
\<close>

definition caught_client_failure :: "exn \<Rightarrow> bool" where
  "caught_client_failure exc =
     (isinstance exc AzureContentUnderstandingClientError
      \<or> isinstance exc OSError \<or> isinstance exc ValueError)"

definition reraise_client_failure :: "exn \<Rightarrow> exn" where
  "reraise_client_failure exc =
     (if caught_client_failure exc
      then Exn ContentUnderstandingServiceError (''Failed to analyze invoice: '' @ exn_str exc)
      else exc)"

text \<open>
  Line 116, an argument of the log call that follows a successful poll:
  \<^verbatim>\<open>file_path.stat().st_size if file_path.exists() else "unknown"\<close>. The response \<open>response\<close> is
  returned when neither call raises.
\<close>

definition log_file_size :: "externals \<Rightarrow> state \<Rightarrow> path \<Rightarrow> json \<Rightarrow> (exn + json) \<times> state" where
  "log_file_size ext s file_path response =
     (let s1 = emit (FsExists file_path) s
      in case fs_exists ext (now s) file_path of
           Inl e \<Rightarrow> (Inl e, s1)
         | Inr found \<Rightarrow>
             if \<not> found then (Inr response, s1)
             else
               let s2 = emit (FsStat file_path) s1
               in case fs_stat ext (now s1) file_path of
                    Some e \<Rightarrow> (Inl e, s2)
                  | None \<Rightarrow> (Inr response, s2))"

text \<open>
  \<^verbatim>\<open>ContentUnderstandingService.analyze_invoice\<close> (lines 67 to 119). The \<^verbatim>\<open>exists()\<close> of line 74
  and the \<^verbatim>\<open>exists()\<close> and \<^verbatim>\<open>stat()\<close> of line 116 stand outside the \<^verbatim>\<open>try\<close>: what they raise
  leaves the method as it is.
\<close>

definition service_analyze_invoice ::
    "externals \<Rightarrow> state \<Rightarrow> invoice_analysis_request \<Rightarrow> (exn + json) \<times> state" where
  "service_analyze_invoice ext s request =
     (case ensure_configuration ext s of
        (Inl e, s1) \<Rightarrow> (Inl e, s1)
      | (Inr config, s1) \<Rightarrow>
          (case ensure_client ext s1 config of
             (Inl e, s2) \<Rightarrow> (Inl e, s2)
           | (Inr client, s2) \<Rightarrow>
               let file_path = req_file_path request;
                   s3 = emit (FsExists file_path) s2
               in case fs_exists ext (now s2) file_path of
                    Inl e \<Rightarrow> (Inl e, s3)
                  | Inr found \<Rightarrow>
                      if \<not> found then
                        (Inl (Exn ContentUnderstandingServiceError
                           (''Invoice file not found: '' @ path_str file_path)), s3)
                      else
                        let analyzer_id = effective_analyzer_id request config
                        in if analyzer_id = [] then
                             (Inl (Exn ContentUnderstandingServiceError
                                ''Analyzer ID is required for invoice analysis.''), s3)
                           else
                             let s4 = emit (BeginAnalyze analyzer_id (path_str file_path)
                                         (req_content_type request)) s3
                             in case begin_analyze ext client analyzer_id (path_str file_path)
                                       (req_content_type request) of
                                  Inl exc \<Rightarrow> (Inl (reraise_client_failure exc), s4)
                                | Inr operation \<Rightarrow>
                                    let s5 = emit (PollResult operation) s4
                                    in case poll_result ext client operation
                                              (cfg_poll_timeout_seconds config)
                                              (cfg_poll_interval_seconds config) of
                                         Inl exc \<Rightarrow> (Inl (reraise_client_failure exc), s5)
                                       | Inr result \<Rightarrow>
                                           log_file_size ext s5 file_path
                                             (build_analysis_response analyzer_id request
                                                config result)))"

section \<open>The tool\<close>

text \<open>
  \<^verbatim>\<open>_get_trimmed_argument\<close> (lines 220 to 224) on a dict: the stripped value when it is a
  string, \<open>None\<close> when the key is absent or holds anything else.
\<close>

definition get_trimmed_argument :: "(string \<times> json) list \<Rightarrow> string \<Rightarrow> string option" where
  "get_trimmed_argument arguments key =
     (case map_of arguments key of
        Some (JStr v) \<Rightarrow> Some (strip v)
      | _ \<Rightarrow> None)"

text \<open>The name Python prints for the type of a decoded value.\<close>

fun type_name :: "json \<Rightarrow> string" where
  "type_name JNull = ''NoneType''"
| "type_name (JBool b) = ''bool''"
| "type_name (JInt i) = ''int''"
| "type_name (JFloat f) = ''float''"
| "type_name (JStr v) = ''str''"
| "type_name (JArr xs) = ''list''"
| "type_name (JObj d) = ''dict''"

text \<open>
  \<^verbatim>\<open>x.get(...)\<close> on a decoded value that is not a dict: none of the other types has the
  attribute, so Python raises \<^verbatim>\<open>AttributeError\<close>.
\<close>

definition no_get_attribute :: "json \<Rightarrow> exn" where
  "no_get_attribute v =
     Exn AttributeError
       ([CHR 0x27] @ type_name v @ [CHR 0x27] @ '' object has no attribute ''
        @ [CHR 0x27] @ ''get'' @ [CHR 0x27])"

definition error_envelope :: "string \<Rightarrow> string \<Rightarrow> json" where
  "error_envelope err details = JObj [(''error'', JStr err), (''details'', JStr details)]"

text \<open>
  Lines 191 to 209 of \<^verbatim>\<open>analyze_invoice\<close>: the request built from the arguments and the
  stored file. The file name is the \<^verbatim>\<open>fileName\<close> argument, or else the name of the resolved
  file; the content type is the \<^verbatim>\<open>contentType\<close> argument, or else the guessed type.
\<close>

definition build_request ::
    "(string \<times> json) list \<Rightarrow> string option \<Rightarrow> string option \<Rightarrow> stored_file
       \<Rightarrow> invoice_analysis_request" where
  "build_request arguments file_name_argument content_type0 stored_invoice =
     (let file_name = py_or file_name_argument (sf_file_name stored_invoice);
          content_type =
            (if \<not> truthy content_type0 \<and> truthy (sf_content_type stored_invoice)
             then sf_content_type stored_invoice
             else content_type0);
          analyzer_id = get_trimmed_argument arguments ''analyzerId''
      in \<lparr>req_file_path = sf_path stored_invoice,
          req_content_type = py_or_opt content_type None,
          req_file_name = py_or_opt (Some file_name) None,
          req_analyzer_id = py_or_opt analyzer_id None\<rparr>)"

text \<open>
  \<^verbatim>\<open>analyze_invoice\<close> (function_app.py, lines 154 to 217). The argument \<open>loaded\<close> is what
  \<^verbatim>\<open>json.loads(context)\<close> did: the decoded value, or the exception it raised. The result is
  the value handed to \<^verbatim>\<open>json.dumps\<close> (\<open>Inr\<close>), or the exception that leaves the function
  (\<open>Inl\<close>). \<^verbatim>\<open>content.get\<close> and the first \<^verbatim>\<open>arguments.get\<close> raise \<^verbatim>\<open>AttributeError\<close> on a value
  that is not a dict; the first stands inside the \<^verbatim>\<open>try\<close>, whose handler names
  \<^verbatim>\<open>TypeError\<close> and \<^verbatim>\<open>JSONDecodeError\<close> only.
\<close>

definition analyze_invoice ::
    "externals \<Rightarrow> state \<Rightarrow> exn + json \<Rightarrow> (exn + json) \<times> state" where
  "analyze_invoice ext s loaded =
     (case loaded of
        Inl err \<Rightarrow>
          if isinstance err TypeError \<or> isinstance err JSONDecodeError
          then (Inr (error_envelope ''Invalid request payload'' (exn_str err)), s)
          else (Inl err, s)
      | Inr (JObj content) \<Rightarrow>
          (case (case map_of content ''arguments'' of None \<Rightarrow> JObj [] | Some a \<Rightarrow> a) of
             JObj arguments \<Rightarrow>
               let invoice_id = get_trimmed_argument arguments ''invoiceId'';
                   file_name_argument = get_trimmed_argument arguments ''fileName'';
                   content_type0 = get_trimmed_argument arguments ''contentType'';
                   source_identifier = py_or_opt invoice_id file_name_argument
               in if \<not> truthy source_identifier then
                    (Inr (error_envelope ''fileName is required''
                       ''Provide the file name relative to the data directory, for example invoice_sample.jpg.''),
                     s)
                  else
                    (case load_invoice_from_data ext s (py_or source_identifier []) of
                       (Inl exc, s1) \<Rightarrow>
                         if isinstance exc FileNotFoundError then
                           (Inr (error_envelope ''Invoice sample not found''
                              (''Add '' @ py_or source_identifier [] @ '' to the data directory.'')),
                            s1)
                         else if isinstance exc ValueError then
                           (Inr (error_envelope ''Invalid file reference'' (exn_str exc)), s1)
                         else (Inl exc, s1)
                     | (Inr stored_invoice, s1) \<Rightarrow>
                         let request =
                               build_request arguments file_name_argument content_type0
                                 stored_invoice
                         in case service_analyze_invoice ext s1 request of
                              (Inl exc, s2) \<Rightarrow>
                                if isinstance exc ContentUnderstandingServiceError then
                                  (Inr (error_envelope ''Unable to analyze invoice'' (exn_str exc)), s2)
                                else (Inl exc, s2)
                            | (Inr analysis, s2) \<Rightarrow> (Inr analysis, s2))
           | other \<Rightarrow> (Inl (no_get_attribute other), s))
      | Inr other \<Rightarrow> (Inl (no_get_attribute other), s))"

section \<open>Reading messages\<close>

text \<open>
  \<open>mentions msg t\<close>: the text \<open>t\<close> occurs in the message \<open>msg\<close>. It is used to say what an
  error message includes; the program has no such function.
\<close>

fun mentions :: "string \<Rightarrow> string \<Rightarrow> bool" where
  "mentions [] t = (t = [])"
| "mentions (c # cs) t = (prefix t (c # cs) \<or> mentions cs t)"

section \<open>Sample worlds\<close>

text \<open>
  Concrete worlds on which the theorems below are exercised. In \<open>sample_ext\<close> the data
  directory is \<^verbatim>\<open>/home/site/wwwroot/data\<close> and holds \<^verbatim>\<open>invoice_sample.jpg\<close>; there are no
  symbolic links and the file system neither changes nor raises; the endpoint and a
  subscription key are set; the analysis succeeds. The tables for \<^verbatim>\<open>float()\<close> and for
  \<^verbatim>\<open>mimetypes.guess_type\<close> list the texts used here with the values Python gives them
  (\<^verbatim>\<open>float("abc")\<close> raises \<^verbatim>\<open>ValueError\<close>, a name without an entry has no type).
\<close>

definition sample_root :: path where
  "sample_root = [''home'', ''site'', ''wwwroot'', ''data'']"

definition sample_payload :: json where
  "sample_payload = JObj [(''status'', JStr ''Succeeded'')]"

definition sample_ext :: externals where
  "sample_ext =
     \<lparr>getenv = map_of [(''CONTENT_UNDERSTANDING_ENDPOINT'', ''https://cu.example.net''),
                        (''CONTENT_UNDERSTANDING_API_KEY'', ''s3cr3t'')],
      float_builtin = map_of [(''nan'', NaN), (''-5'', Finite (- 5)), (''0'', Finite 0),
                               (''0.5'', Finite (1 / 2))],
      guess_type = map_of [(''invoice_sample.jpg'', ''image/jpeg''),
                            (''secret.pdf'', ''application/pdf'')],
      fs_resolve = (\<lambda>t p. Inr p),
      fs_exists =
        (\<lambda>t p. Inr (p \<in> set [sample_root, sample_root @ [''invoice_sample.jpg'']])),
      fs_stat = (\<lambda>t p. None),
      data_directory = sample_root,
      credential_ctor = None,
      client_ctor = (\<lambda>h. None),
      begin_analyze = (\<lambda>c a f t. Inr ''op-1''),
      poll_result = (\<lambda>c operation t i. Inr sample_payload)\<rparr>"

definition fresh :: state where
  "fresh = \<lparr>svc_config = None, svc_credential = None, svc_client = None, events = []\<rparr>"

text \<open>The request the tool builds for \<^verbatim>\<open>invoice_sample.jpg\<close>, with an analyzer override.\<close>

definition sample_request :: "string option \<Rightarrow> invoice_analysis_request" where
  "sample_request override =
     \<lparr>req_file_path = sample_root @ [''invoice_sample.jpg''],
      req_content_type = Some ''image/jpeg'',
      req_file_name = Some ''invoice_sample.jpg'',
      req_analyzer_id = override\<rparr>"

text \<open>A world with a symbolic link \<^verbatim>\<open>data/link\<close> to a file of the sibling directory \<^verbatim>\<open>data2\<close>.\<close>

definition link_ext :: externals where
  "link_ext =
     sample_ext
       \<lparr>fs_resolve :=
          (\<lambda>t p. Inr (if p = sample_root @ [''link'']
                       then [''home'', ''site'', ''wwwroot'', ''data2'', ''secret.pdf'']
                       else p)),
        fs_exists := (\<lambda>t p. Inr True)\<rparr>"

text \<open>Worlds that set the poll interval: to \<^verbatim>\<open>nan\<close>, and to any text.\<close>

definition interval_ext :: "string \<Rightarrow> externals" where
  "interval_ext raw =
     sample_ext
       \<lparr>getenv :=
          map_of [(''CONTENT_UNDERSTANDING_ENDPOINT'', ''https://cu.example.net''),
                  (''CONTENT_UNDERSTANDING_POLL_INTERVAL_SECONDS'', raw)]\<rparr>"

text \<open>A world whose environment sets the default analyzer identifier to one space.\<close>

definition blank_default_ext :: externals where
  "blank_default_ext =
     sample_ext
       \<lparr>getenv :=
          map_of [(''CONTENT_UNDERSTANDING_ENDPOINT'', ''https://cu.example.net''),
                  (''CONTENT_UNDERSTANDING_API_KEY'', ''s3cr3t''),
                  (''CONTENT_UNDERSTANDING_ANALYZER_ID'', '' '')]\<rparr>"

text \<open>Worlds whose client fails at submission with a given exception.\<close>

definition failing_ext :: "exn \<Rightarrow> externals" where
  "failing_ext exc = sample_ext\<lparr>begin_analyze := (\<lambda>c a f t. Inl exc)\<rparr>"

text \<open>The configuration \<open>sample_ext\<close> resolves to.\<close>

definition sample_config :: service_config where
  "sample_config =
     \<lparr>cfg_endpoint = ''https://cu.example.net'',
      cfg_analyzer_id = ''prebuilt-invoice'',
      cfg_api_version = ''2025-05-01-preview'',
      cfg_user_agent = ''remote-mcp-functions-python/1.0'',
      cfg_poll_interval_seconds = Finite 2,
      cfg_poll_timeout_seconds = Finite 180,
      cfg_subscription_key = Some ''s3cr3t''\<rparr>"

text \<open>
  A world in which, as on Linux, a path with a component of more than 255 characters
  makes \<^verbatim>\<open>exists()\<close> raise \<^verbatim>\<open>OSError\<close> with errno 36, and a name of 300 letters.
\<close>

definition name_max_ext :: externals where
  "name_max_ext =
     sample_ext
       \<lparr>fs_exists :=
          (\<lambda>t p. if list_ex (\<lambda>c. 255 < length c) p
                 then Inl (Exn OSError
                        (''[Errno 36] File name too long: ''
                         @ [CHR 0x27] @ path_str p @ [CHR 0x27]))
                 else fs_exists sample_ext t p)\<rparr>"

definition long_name :: string where
  "long_name = replicate 300 CHR ''a''"


section \<open>Basic facts\<close>

lemma strip_Nil: "strip [] = []"
  by (simp add: strip_def)

lemma path_parts_Nil: "path_parts [] = []"
  by (simp add: path_parts_def path_anchor_def is_absolute_def)

lemmas string_defs =
  strip_def isspace_def lower_def lower_char_def upper_letters_def lower_letters_def

lemmas path_defs = path_parts_def path_anchor_def is_absolute_def path_name_def path_str_def

lemma now_emit: "now (emit e s) = Suc (now s)"
  by (simp add: now_def emit_def)

lemmas world_defs = sample_ext_def sample_root_def fresh_def sample_payload_def

lemmas default_defs =
  DEFAULT_ANALYZER_ID_def DEFAULT_API_VERSION_def DEFAULT_USER_AGENT_def
  DEFAULT_POLL_INTERVAL_SECONDS_def DEFAULT_POLL_TIMEOUT_SECONDS_def


section \<open>Traversal segments\<close>

lemma validate_traversal:
  assumes "''..'' \<in> set (path_parts (strip ident))"
  shows "validate_identifier d ident =
           Inl (Exn ValueError
             ''invoiceId must not be absolute or traverse outside the data directory.'')"
proof -
  have "strip ident \<noteq> []"
    using assms by (auto simp: path_parts_Nil)
  then show ?thesis
    using assms by (simp add: validate_identifier_def Let_def)
qed

text \<open>
  Claim C3. An identifier whose component list (the parts of the stripped text) holds a
  \<^verbatim>\<open>..\<close> segment is refused with the \<^verbatim>\<open>ValueError\<close> of line 234, whatever the other
  segments, the file system and the state are; the tool reports it as the
  \<^verbatim>\<open>Invalid file reference\<close> envelope. In both cases the state comes back unchanged, so no
  event was recorded: the file system was not asked and nothing was submitted.
\<close>

theorem traversal_identifier_rejected:
  assumes "''..'' \<in> set (path_parts (strip ident))"
  shows "load_invoice_from_data ext s ident =
           (Inl (Exn ValueError
              ''invoiceId must not be absolute or traverse outside the data directory.''), s)
         \<and> (map_of content ''arguments'' = Some (JObj arguments)
              \<and> py_or_opt (get_trimmed_argument arguments ''invoiceId'')
                    (get_trimmed_argument arguments ''fileName'') = Some ident
            \<longrightarrow> analyze_invoice ext s (Inr (JObj content)) =
                  (Inr (error_envelope ''Invalid file reference''
                     ''invoiceId must not be absolute or traverse outside the data directory.''), s))"
proof -
  have load: "load_invoice_from_data ext s ident =
           (Inl (Exn ValueError
              ''invoiceId must not be absolute or traverse outside the data directory.''), s)"
    by (simp add: load_invoice_from_data_def validate_traversal [OF assms])
  have ne: "ident \<noteq> []"
    using assms by (auto simp: path_parts_Nil strip_Nil)
  show ?thesis
    using load ne by (simp add: analyze_invoice_def Let_def is_subclass_def)
qed

theorem traversal_identifier_rejected_witness:
  "''..'' \<in> set (path_parts (strip ''../../etc/passwd''))
   \<and> load_invoice_from_data sample_ext fresh ''../../etc/passwd'' =
       (Inl (Exn ValueError
          ''invoiceId must not be absolute or traverse outside the data directory.''), fresh)
   \<and> analyze_invoice sample_ext fresh
        (Inr (JObj [(''arguments'', JObj [(''fileName'', JStr ''../../etc/passwd'')])])) =
       (Inr (error_envelope ''Invalid file reference''
          ''invoiceId must not be absolute or traverse outside the data directory.''), fresh)"
proof -
  have h: "''..'' \<in> set (path_parts (strip ''../../etc/passwd''))"
    by (simp add: string_defs path_defs)
  have a: "py_or_opt (get_trimmed_argument [(''fileName'', JStr ''../../etc/passwd'')] ''invoiceId'')
             (get_trimmed_argument [(''fileName'', JStr ''../../etc/passwd'')] ''fileName'')
           = Some ''../../etc/passwd''"
    by (simp add: get_trimmed_argument_def string_defs)
  show ?thesis
    using h a
      traversal_identifier_rejected [OF h, of sample_ext fresh
        "[(''arguments'', JObj [(''fileName'', JStr ''../../etc/passwd'')])]"
        "[(''fileName'', JStr ''../../etc/passwd'')]"]
    by simp
qed


section \<open>Memoized configuration\<close>

text \<open>
  Claim C7. A call of \<^verbatim>\<open>_ensure_configuration\<close> that succeeds leaves its snapshot in the
  cache; from then on, in every state that holds this snapshot and under every
  environment, the call returns the same snapshot and the state unchanged. As the
  events are part of the state, no environment variable is read again.
\<close>

theorem configuration_memoized:
  assumes "ensure_configuration ext s = (Inr config, s')"
  shows "svc_config s' = Some config
         \<and> (\<forall>ext' t. svc_config t = Some config
               \<longrightarrow> ensure_configuration ext' t = (Inr config, t))"
proof -
  have cached: "svc_config s' = Some config"
  proof (cases "svc_config s")
    case None
    then show ?thesis
      using assms
      by (auto simp: ensure_configuration_def Let_def split: if_splits prod.splits)
  next
    case (Some c)
    then show ?thesis
      using assms by (simp add: ensure_configuration_def)
  qed
  moreover have "\<And>ext' t. svc_config t = Some config
                   \<Longrightarrow> ensure_configuration ext' t = (Inr config, t)"
    by (simp add: ensure_configuration_def)
  ultimately show ?thesis by blast
qed

theorem configuration_memoized_witness:
  "fst (ensure_configuration sample_ext fresh) = Inr sample_config
   \<and> svc_config (snd (ensure_configuration sample_ext fresh)) = Some sample_config
   \<and> ensure_configuration (interval_ext ''0.5'') (snd (ensure_configuration sample_ext fresh)) =
       (Inr sample_config, snd (ensure_configuration sample_ext fresh))"
proof -
  obtain r where e: "ensure_configuration sample_ext fresh = (Inr sample_config, r)"
    by (simp add: ensure_configuration_def get_float_env_def emit_def Let_def world_defs
          default_defs string_defs sample_config_def)
  show ?thesis
    using e configuration_memoized [OF e] by simp
qed


section \<open>Arguments that are not strings\<close>

lemma get_trimmed_argument_non_string:
  assumes "map_of arguments key = Some v" and "\<forall>t. v \<noteq> JStr t"
  shows "get_trimmed_argument arguments key = None"
  using assms by (cases v) (simp_all add: get_trimmed_argument_def)

lemma map_of_drop_key:
  "map_of (filter (\<lambda>p. fst p \<noteq> key) xs) k = (if k = key then None else map_of xs k)"
  by (induction xs) auto

lemma get_trimmed_argument_drop:
  assumes "map_of arguments key = Some v" and "\<forall>t. v \<noteq> JStr t"
  shows "get_trimmed_argument (filter (\<lambda>p. fst p \<noteq> key) arguments) k
         = get_trimmed_argument arguments k"
proof (cases "k = key")
  case True
  then show ?thesis
    using get_trimmed_argument_non_string [OF assms]
    by (simp add: get_trimmed_argument_def map_of_drop_key)
next
  case False
  then show ?thesis
    by (simp add: get_trimmed_argument_def map_of_drop_key)
qed

text \<open>
  Claim C10. When the value an argument map holds for a key is not a string,
  \<^verbatim>\<open>_get_trimmed_argument\<close> answers \<open>None\<close>, as it does for a key that is absent, and the tool
  behaves exactly as on the map with that key removed: same result, same state. In
  particular a \<^verbatim>\<open>fileName\<close> that is not a string, with no \<^verbatim>\<open>invoiceId\<close>, gives the
  \<^verbatim>\<open>fileName is required\<close> envelope and no exception.
\<close>

theorem non_string_argument_is_absent:
  assumes "map_of arguments key = Some v" and "\<forall>t. v \<noteq> JStr t"
    and "map_of content ''arguments'' = Some (JObj arguments)"
    and "map_of content' ''arguments'' = Some (JObj (filter (\<lambda>p. fst p \<noteq> key) arguments))"
  shows "get_trimmed_argument arguments key = None
         \<and> analyze_invoice ext s (Inr (JObj content)) = analyze_invoice ext s (Inr (JObj content'))
         \<and> (key = ''fileName'' \<and> map_of arguments ''invoiceId'' = None
              \<longrightarrow> analyze_invoice ext s (Inr (JObj content)) =
                    (Inr (error_envelope ''fileName is required''
                       ''Provide the file name relative to the data directory, for example invoice_sample.jpg.''),
                     s))"
proof -
  note none = get_trimmed_argument_non_string [OF assms(1,2)]
  note drop = get_trimmed_argument_drop [OF assms(1,2)]
  have same: "analyze_invoice ext s (Inr (JObj content)) = analyze_invoice ext s (Inr (JObj content'))"
    unfolding analyze_invoice_def build_request_def assms(3,4) sum.case json.case option.case drop
    by (rule refl)
  have req: "analyze_invoice ext s (Inr (JObj content)) =
                    (Inr (error_envelope ''fileName is required''
                       ''Provide the file name relative to the data directory, for example invoice_sample.jpg.''),
                     s)"
    if "key = ''fileName''" "map_of arguments ''invoiceId'' = None"
  proof -
    have "get_trimmed_argument arguments ''invoiceId'' = None"
      using that(2) by (simp add: get_trimmed_argument_def)
    moreover have "get_trimmed_argument arguments ''fileName'' = None"
      using none that(1) by simp
    ultimately show ?thesis
      by (simp add: analyze_invoice_def assms(3) Let_def)
  qed
  show ?thesis
    using none same req by blast
qed

theorem non_string_argument_is_absent_witness:
  "map_of [(''fileName'', JInt 42), (''contentType'', JStr ''image/png'')] ''fileName'' = Some (JInt 42)
   \<and> get_trimmed_argument [(''fileName'', JInt 42), (''contentType'', JStr ''image/png'')] ''fileName''
       = None
   \<and> analyze_invoice sample_ext fresh
        (Inr (JObj [(''arguments'',
           JObj [(''fileName'', JInt 42), (''contentType'', JStr ''image/png'')])])) =
      analyze_invoice sample_ext fresh
        (Inr (JObj [(''arguments'', JObj [(''contentType'', JStr ''image/png'')])]))
   \<and> analyze_invoice sample_ext fresh
        (Inr (JObj [(''arguments'',
           JObj [(''fileName'', JInt 42), (''contentType'', JStr ''image/png'')])])) =
       (Inr (error_envelope ''fileName is required''
          ''Provide the file name relative to the data directory, for example invoice_sample.jpg.''),
        fresh)"
proof -
  have h1: "map_of [(''fileName'', JInt 42), (''contentType'', JStr ''image/png'')] ''fileName''
              = Some (JInt 42)"
    by simp
  have h2: "\<forall>t. JInt 42 \<noteq> JStr t"
    by simp
  have h3: "map_of [(''arguments'',
                 JObj [(''fileName'', JInt 42), (''contentType'', JStr ''image/png'')])] ''arguments''
              = Some (JObj [(''fileName'', JInt 42), (''contentType'', JStr ''image/png'')])"
    by simp
  have h4: "map_of [(''arguments'', JObj [(''contentType'', JStr ''image/png'')])] ''arguments''
              = Some (JObj (filter (\<lambda>p. fst p \<noteq> ''fileName'')
                              [(''fileName'', JInt 42), (''contentType'', JStr ''image/png'')]))"
    by simp
  have h5: "map_of [(''fileName'', JInt 42), (''contentType'', JStr ''image/png'')] ''invoiceId''
              = None"
    by simp
  show ?thesis
    using h1 h5 non_string_argument_is_absent [OF h1 h2 h3 h4, of sample_ext fresh]
    by blast
qed


section \<open>Existence on the backing store\<close>

lemma path_str_append:
  "zs \<noteq> [] \<Longrightarrow> prefix (path_str base) (path_str (base @ zs))"
  by (cases zs) (auto simp: path_str_def)

lemma descendant_str_prefix:
  assumes "is_descendant base p"
  shows "prefix (path_str base) (path_str p)"
proof -
  from assms obtain zs where "p = base @ zs" "zs \<noteq> []"
    by (auto simp: is_descendant_def strict_prefix_def prefix_def)
  then show ?thesis
    by (simp add: path_str_append)
qed

text \<open>
  Where \<^verbatim>\<open>resolve()\<close> and \<^verbatim>\<open>exists()\<close> both answer, an identifier that passes the checks and
  resolves to a descendant of the data directory is found exactly when \<^verbatim>\<open>exists()\<close> says so,
  and \<^verbatim>\<open>FileNotFoundError\<close> is raised otherwise.
\<close>

lemma resolution_when_exists_answers:
  assumes "validate_identifier (data_directory ext) ident = Inr rel"
    and "fs_resolve ext (now s) (data_directory ext @ rel) = Inr target"
    and "is_descendant (data_directory ext) target"
    and "fs_exists ext (Suc (now s)) target = Inr found"
  shows "fst (load_invoice_from_data ext s ident) =
           (if found
            then Inr \<lparr>sf_path = target,
                      sf_content_type = guess_type ext (path_name target),
                      sf_file_name = path_name target\<rparr>
            else Inl (Exn FileNotFoundError (path_str target)))"
  using assms descendant_str_prefix [OF assms(3)]
  by (simp add: load_invoice_from_data_def Let_def now_emit)

text \<open>
  Claim C8 at a file name of 300 letters \<^verbatim>\<open>a\<close>. The name passes the checks of lines 228 to
  241 and resolves to a descendant of the data directory; no such file exists, and none
  can. \<^verbatim>\<open>exists()\<close> does not answer: it raises \<^verbatim>\<open>OSError\<close> with errno 36, which is no
  \<^verbatim>\<open>FileNotFoundError\<close>. The resolver passes it on, and so does the tool, whose handlers name
  \<^verbatim>\<open>FileNotFoundError\<close> and \<^verbatim>\<open>ValueError\<close> only.
\<close>

theorem long_name_leaves_tool:
  "validate_identifier (data_directory name_max_ext) long_name = Inr [long_name]
   \<and> fs_resolve name_max_ext (now fresh) (data_directory name_max_ext @ [long_name])
       = Inr (sample_root @ [long_name])
   \<and> is_descendant (data_directory name_max_ext) (sample_root @ [long_name])
   \<and> fst (load_invoice_from_data name_max_ext fresh long_name) =
       Inl (Exn OSError
         (''[Errno 36] File name too long: ''
          @ [CHR 0x27] @ path_str (sample_root @ [long_name]) @ [CHR 0x27]))
   \<and> fst (analyze_invoice name_max_ext fresh
        (Inr (JObj [(''arguments'', JObj [(''fileName'', JStr long_name)])]))) =
       Inl (Exn OSError
         (''[Errno 36] File name too long: ''
          @ [CHR 0x27] @ path_str (sample_root @ [long_name]) @ [CHR 0x27]))"
  by code_simp

section \<open>The success envelope\<close>





lemmas service_defs =
  service_analyze_invoice_def ensure_configuration_def ensure_client_def get_float_env_def
  log_file_size_def emit_def now_def effective_analyzer_id_def build_analysis_response_def
  reraise_client_failure_def caught_client_failure_def is_subclass_def Let_def




section \<open>The effective analyzer identifier\<close>

text \<open>
  Claim C5 at an override of one space, with the default \<^verbatim>\<open>prebuilt-invoice\<close> in the
  configuration: line 78 takes the override, because a string of one space is truthy,
  and strips it afterwards, so the call raises the missing-analyzer error although the
  default is not empty. The resolver of the configuration, given one space for the
  default in the environment, falls back to \<^verbatim>\<open>prebuilt-invoice\<close>.
\<close>

theorem blank_override_raises:
  "fst (service_analyze_invoice sample_ext fresh (sample_request (Some '' ''))) =
     Inl (Exn ContentUnderstandingServiceError ''Analyzer ID is required for invoice analysis.'')
   \<and> fst (ensure_configuration sample_ext fresh) = Inr sample_config
   \<and> strip (cfg_analyzer_id sample_config) = ''prebuilt-invoice''
   \<and> fst (ensure_configuration blank_default_ext fresh) = Inr sample_config"
  by (simp add: service_defs blank_default_ext_def sample_ext_def sample_root_def fresh_def
        default_defs string_defs sample_request_def path_str_def sample_config_def)

section \<open>Failures of the orchestrator\<close>

lemma ensure_configuration_failure:
  assumes "ensure_configuration ext s = (Inl e, s1)"
  shows "e = Exn ContentUnderstandingServiceError
               ''CONTENT_UNDERSTANDING_ENDPOINT is required to call Azure AI Content Understanding.''"
  using assms
  by (auto simp: ensure_configuration_def Let_def split: option.splits if_splits prod.splits)

lemma reraise_caught:
  "caught_client_failure exc \<Longrightarrow>
     reraise_client_failure exc =
       Exn ContentUnderstandingServiceError (''Failed to analyze invoice: '' @ exn_str exc)"
  by (simp add: reraise_client_failure_def)

text \<open>
  Claim C9, as the code has it. Let \<^verbatim>\<open>_ensure_configuration\<close> have answered. If it raised
  (the endpoint is missing), \<^verbatim>\<open>analyze_invoice\<close> raises \<^verbatim>\<open>ContentUnderstandingServiceError\<close> with
  the fixed text that names the endpoint variable. If it returned a configuration and
  \<^verbatim>\<open>_ensure_client\<close> returned a client, then: when the file check of line 74 answers that
  the file is absent, the error is \<^verbatim>\<open>ContentUnderstandingServiceError\<close> with the message
  \<^verbatim>\<open>Invoice file not found:\<close> followed by the file path; when the file is there and the
  effective analyzer identifier is empty, it is \<^verbatim>\<open>ContentUnderstandingServiceError\<close> with the
  fixed text \<^verbatim>\<open>Analyzer ID is required for invoice analysis.\<close>; and when the file is there,
  the identifier is not empty and the submission, or after it the polling, raises an
  exception of one of the classes the handler of line 102 names, it is
  \<^verbatim>\<open>ContentUnderstandingServiceError\<close> with the message \<^verbatim>\<open>Failed to analyze invoice:\<close> followed
  by the text of that exception, and by nothing else.
\<close>

theorem orchestrator_failure_messages:
  assumes "ensure_configuration ext s = (r1, s1)"
  shows "(\<forall>e. r1 = Inl e \<longrightarrow>
            fst (service_analyze_invoice ext s request) =
              Inl (Exn ContentUnderstandingServiceError
                ''CONTENT_UNDERSTANDING_ENDPOINT is required to call Azure AI Content Understanding.''))
       \<and> (\<forall>config client s2.
            r1 = Inr config \<and> ensure_client ext s1 config = (Inr client, s2) \<longrightarrow>
              (fs_exists ext (now s2) (req_file_path request) = Inr False \<longrightarrow>
                 fst (service_analyze_invoice ext s request) =
                   Inl (Exn ContentUnderstandingServiceError
                     (''Invoice file not found: '' @ path_str (req_file_path request))))
            \<and> (fs_exists ext (now s2) (req_file_path request) = Inr True
                 \<and> effective_analyzer_id request config = [] \<longrightarrow>
                 fst (service_analyze_invoice ext s request) =
                   Inl (Exn ContentUnderstandingServiceError
                     ''Analyzer ID is required for invoice analysis.''))
            \<and> (\<forall>exc.
                 fs_exists ext (now s2) (req_file_path request) = Inr True
                 \<and> effective_analyzer_id request config \<noteq> []
                 \<and> begin_analyze ext client (effective_analyzer_id request config)
                      (path_str (req_file_path request)) (req_content_type request) = Inl exc
                 \<and> caught_client_failure exc \<longrightarrow>
                 fst (service_analyze_invoice ext s request) =
                   Inl (Exn ContentUnderstandingServiceError
                     (''Failed to analyze invoice: '' @ exn_str exc)))
            \<and> (\<forall>operation exc.
                 fs_exists ext (now s2) (req_file_path request) = Inr True
                 \<and> effective_analyzer_id request config \<noteq> []
                 \<and> begin_analyze ext client (effective_analyzer_id request config)
                      (path_str (req_file_path request)) (req_content_type request) = Inr operation
                 \<and> poll_result ext client operation (cfg_poll_timeout_seconds config)
                      (cfg_poll_interval_seconds config) = Inl exc
                 \<and> caught_client_failure exc \<longrightarrow>
                 fst (service_analyze_invoice ext s request) =
                   Inl (Exn ContentUnderstandingServiceError
                     (''Failed to analyze invoice: '' @ exn_str exc))))"
proof (intro conjI allI impI)
  fix e
  assume "r1 = Inl e"
  then have c: "ensure_configuration ext s = (Inl e, s1)"
    using assms by simp
  have "fst (service_analyze_invoice ext s request) = Inl e"
    using c by (simp add: service_analyze_invoice_def)
  then show "fst (service_analyze_invoice ext s request) =
              Inl (Exn ContentUnderstandingServiceError
                ''CONTENT_UNDERSTANDING_ENDPOINT is required to call Azure AI Content Understanding.'')"
    using ensure_configuration_failure [OF c] by simp
next
  fix config client s2
  assume h: "r1 = Inr config \<and> ensure_client ext s1 config = (Inr client, s2)"
    and f: "fs_exists ext (now s2) (req_file_path request) = Inr False"
  have c: "ensure_configuration ext s = (Inr config, s1)"
    using assms h by simp
  show "fst (service_analyze_invoice ext s request) =
          Inl (Exn ContentUnderstandingServiceError
            (''Invoice file not found: '' @ path_str (req_file_path request)))"
    using c h f by (simp add: service_analyze_invoice_def Let_def)
next
  fix config client s2
  assume h: "r1 = Inr config \<and> ensure_client ext s1 config = (Inr client, s2)"
    and f: "fs_exists ext (now s2) (req_file_path request) = Inr True
              \<and> effective_analyzer_id request config = []"
  have c: "ensure_configuration ext s = (Inr config, s1)"
    using assms h by simp
  show "fst (service_analyze_invoice ext s request) =
          Inl (Exn ContentUnderstandingServiceError
            ''Analyzer ID is required for invoice analysis.'')"
    using c h f by (simp add: service_analyze_invoice_def Let_def)
next
  fix config client s2 exc
  assume h: "r1 = Inr config \<and> ensure_client ext s1 config = (Inr client, s2)"
    and f: "fs_exists ext (now s2) (req_file_path request) = Inr True
              \<and> effective_analyzer_id request config \<noteq> []
              \<and> begin_analyze ext client (effective_analyzer_id request config)
                   (path_str (req_file_path request)) (req_content_type request) = Inl exc
              \<and> caught_client_failure exc"
  have c: "ensure_configuration ext s = (Inr config, s1)"
    using assms h by simp
  show "fst (service_analyze_invoice ext s request) =
          Inl (Exn ContentUnderstandingServiceError
            (''Failed to analyze invoice: '' @ exn_str exc))"
    using c h f by (simp add: service_analyze_invoice_def Let_def reraise_caught)
next
  fix config client s2 operation exc
  assume h: "r1 = Inr config \<and> ensure_client ext s1 config = (Inr client, s2)"
    and f: "fs_exists ext (now s2) (req_file_path request) = Inr True
              \<and> effective_analyzer_id request config \<noteq> []
              \<and> begin_analyze ext client (effective_analyzer_id request config)
                   (path_str (req_file_path request)) (req_content_type request) = Inr operation
              \<and> poll_result ext client operation (cfg_poll_timeout_seconds config)
                   (cfg_poll_interval_seconds config) = Inl exc
              \<and> caught_client_failure exc"
  have c: "ensure_configuration ext s = (Inr config, s1)"
    using assms h by simp
  show "fst (service_analyze_invoice ext s request) =
          Inl (Exn ContentUnderstandingServiceError
            (''Failed to analyze invoice: '' @ exn_str exc))"
    using c h f by (simp add: service_analyze_invoice_def Let_def reraise_caught)
qed

theorem orchestrator_failure_messages_witness:
  "fst (ensure_configuration (failing_ext (Exn OSError ''boom'')) fresh) = Inr sample_config
   \<and> caught_client_failure (Exn OSError ''boom'')
   \<and> effective_analyzer_id (sample_request None) sample_config = ''prebuilt-invoice''
   \<and> fst (service_analyze_invoice (failing_ext (Exn OSError ''boom'')) fresh (sample_request None))
       = Inl (Exn ContentUnderstandingServiceError
           (''Failed to analyze invoice: '' @ exn_str (Exn OSError ''boom'')))"
proof -
  let ?ext = "failing_ext (Exn OSError ''boom'')"
  have c1: "fst (ensure_configuration ?ext fresh) = Inr sample_config"
    by (simp add: service_defs failing_ext_def sample_ext_def sample_root_def fresh_def
          default_defs string_defs sample_config_def)
  then obtain s1 where c: "ensure_configuration ?ext fresh = (Inr sample_config, s1)"
    by (cases "ensure_configuration ?ext fresh") simp
  have "svc_client (snd (ensure_configuration ?ext fresh)) = None"
    by (simp add: service_defs failing_ext_def sample_ext_def sample_root_def fresh_def
          default_defs string_defs sample_config_def)
  then have n: "svc_client s1 = None"
    using c by simp
  have "\<exists>client s2. ensure_client ?ext s1 sample_config = (Inr client, s2)"
    using n
    by (simp add: ensure_client_def Let_def failing_ext_def sample_ext_def
          sample_config_def)
  then obtain client s2 where k: "ensure_client ?ext s1 sample_config = (Inr client, s2)"
    by blast
  have x: "fs_exists ?ext (now s2) (req_file_path (sample_request None)) = Inr True"
    by (simp add: failing_ext_def sample_ext_def sample_request_def)
  have a: "effective_analyzer_id (sample_request None) sample_config = ''prebuilt-invoice''"
    by (simp add: effective_analyzer_id_def sample_request_def sample_config_def string_defs)
  have b: "begin_analyze ?ext client (effective_analyzer_id (sample_request None) sample_config)
             (path_str (req_file_path (sample_request None)))
             (req_content_type (sample_request None)) = Inl (Exn OSError ''boom'')"
    by (simp add: failing_ext_def)
  have g: "caught_client_failure (Exn OSError ''boom'')"
    by (simp add: caught_client_failure_def is_subclass_def)
  have ne: "effective_analyzer_id (sample_request None) sample_config \<noteq> []"
    unfolding a by simp
  note t = orchestrator_failure_messages [OF c, of "sample_request None"]
  have "fst (service_analyze_invoice ?ext fresh (sample_request None))
       = Inl (Exn ContentUnderstandingServiceError
           (''Failed to analyze invoice: '' @ exn_str (Exn OSError ''boom'')))"
    using t k x ne b g by blast
  with c1 g a show ?thesis
    by (intro conjI)
qed

text \<open>
  The claim as stated fails when the submission raises \<^verbatim>\<open>OSError("boom")\<close>: the message
  mentions neither the endpoint, nor the analyzer identifier, nor the file. And the
  message repeats the text of the underlying error, whatever it holds: a text that holds
  the subscription key is carried into the message.
\<close>

theorem failure_message_counterexample:
  "fst (service_analyze_invoice (failing_ext (Exn OSError ''boom'')) fresh (sample_request None))
     = Inl (Exn ContentUnderstandingServiceError ''Failed to analyze invoice: boom'')
   \<and> fst (ensure_configuration (failing_ext (Exn OSError ''boom'')) fresh) = Inr sample_config
   \<and> \<not> mentions ''Failed to analyze invoice: boom'' (cfg_endpoint sample_config)
   \<and> \<not> mentions ''Failed to analyze invoice: boom'' (cfg_analyzer_id sample_config)
   \<and> \<not> mentions ''Failed to analyze invoice: boom''
          (path_str (req_file_path (sample_request None)))
   \<and> fst (service_analyze_invoice (failing_ext (Exn OSError ''401 for key s3cr3t'')) fresh
            (sample_request None))
       = Inl (Exn ContentUnderstandingServiceError
                ''Failed to analyze invoice: 401 for key s3cr3t'')
   \<and> cfg_subscription_key sample_config = Some ''s3cr3t''
   \<and> mentions ''Failed to analyze invoice: 401 for key s3cr3t'' ''s3cr3t''"
  by (simp add: service_defs failing_ext_def sample_ext_def sample_root_def fresh_def
        default_defs string_defs sample_request_def path_str_def sample_config_def)

section \<open>Inputs on which the code leaves its contract\<close>

text \<open>
  Claim C1 at the identifier \<^verbatim>\<open>.\<close>: its component list is empty, so the target is the data
  directory itself, which passes \<^verbatim>\<open>startswith\<close> and exists; the resolver returns it,
  although it is not a descendant of the data directory. With a symbolic link
  \<^verbatim>\<open>data/link\<close> into the sibling directory \<^verbatim>\<open>data2\<close>, the identifier \<^verbatim>\<open>link\<close> is accepted too: the
  text \<^verbatim>\<open>/home/site/wwwroot/data2/secret.pdf\<close> starts with \<^verbatim>\<open>/home/site/wwwroot/data\<close>.
\<close>

theorem dot_identifier_resolves_to_root:
  "fst (load_invoice_from_data sample_ext fresh ''.'') =
     Inr \<lparr>sf_path = sample_root, sf_content_type = None, sf_file_name = ''data''\<rparr>
   \<and> data_directory sample_ext = sample_root
   \<and> \<not> is_descendant (data_directory sample_ext) sample_root
   \<and> fst (load_invoice_from_data link_ext fresh ''link'') =
       Inr \<lparr>sf_path = [''home'', ''site'', ''wwwroot'', ''data2'', ''secret.pdf''],
            sf_content_type = Some ''application/pdf'', sf_file_name = ''secret.pdf''\<rparr>
   \<and> \<not> is_descendant (data_directory link_ext)
          [''home'', ''site'', ''wwwroot'', ''data2'', ''secret.pdf'']"
  by (simp add: load_invoice_from_data_def validate_identifier_def Let_def emit_def now_def
        link_ext_def world_defs string_defs path_defs is_descendant_def)

text \<open>
  Claim C2 at the payloads \<^verbatim>\<open>[]\<close> and \<^verbatim>\<open>{"arguments": null}\<close>, in any world and state: both are
  valid JSON, \<^verbatim>\<open>.get\<close> raises \<^verbatim>\<open>AttributeError\<close> on the list and on \<^verbatim>\<open>None\<close>, and no handler
  of the tool names that class, so the exception leaves the function.
\<close>

theorem non_object_payload_escapes:
  "analyze_invoice ext s (Inr (JArr [])) =
     (Inl (Exn AttributeError
        ([CHR 0x27] @ ''list'' @ [CHR 0x27] @ '' object has no attribute ''
         @ [CHR 0x27] @ ''get'' @ [CHR 0x27])), s)
   \<and> analyze_invoice ext s (Inr (JObj [(''arguments'', JNull)])) =
       (Inl (Exn AttributeError
          ([CHR 0x27] @ ''NoneType'' @ [CHR 0x27] @ '' object has no attribute ''
           @ [CHR 0x27] @ ''get'' @ [CHR 0x27])), s)"
  by (simp add: analyze_invoice_def no_get_attribute_def)

text \<open>
  Claim C4 at the override \<^verbatim>\<open>nan\<close> for the poll interval: \<^verbatim>\<open>float("nan")\<close> is NaN,
  \<^verbatim>\<open>value <= 0\<close> is false for it, so it is returned and stored in the snapshot; NaN is not
  greater than zero.
\<close>

theorem nan_poll_interval_propagates:
  "getenv (interval_ext ''nan'') ''CONTENT_UNDERSTANDING_POLL_INTERVAL_SECONDS'' = Some ''nan''
   \<and> float_builtin (interval_ext ''nan'') ''nan'' = Some NaN
   \<and> fst (get_float_env (interval_ext ''nan'') fresh
            ''CONTENT_UNDERSTANDING_POLL_INTERVAL_SECONDS'' DEFAULT_POLL_INTERVAL_SECONDS) = NaN
   \<and> fst (ensure_configuration (interval_ext ''nan'') fresh) =
       Inr \<lparr>cfg_endpoint = ''https://cu.example.net'',
            cfg_analyzer_id = ''prebuilt-invoice'',
            cfg_api_version = ''2025-05-01-preview'',
            cfg_user_agent = ''remote-mcp-functions-python/1.0'',
            cfg_poll_interval_seconds = NaN,
            cfg_poll_timeout_seconds = Finite 180,
            cfg_subscription_key = None\<rparr>
   \<and> \<not> float_gt_zero NaN"
  by (simp add: ensure_configuration_def get_float_env_def emit_def Let_def interval_ext_def
        world_defs default_defs string_defs)


section \<open>Numeric overrides\<close>

lemma not_le_zero_iff: "\<not> float_le_zero v \<longleftrightarrow> float_gt_zero v \<or> v = NaN"
  by (cases v) auto

lemma le_zero_not_gt: "float_le_zero v \<Longrightarrow> \<not> float_gt_zero v"
  by (cases v) auto

lemma get_float_env_cases:
  "fst (get_float_env ext s name dflt) =
     (case getenv ext name of
        None \<Rightarrow> dflt
      | Some raw \<Rightarrow>
          (case float_builtin ext raw of
             None \<Rightarrow> dflt
           | Some v \<Rightarrow> if float_gt_zero v \<or> v = NaN then v else dflt))"
  by (auto simp: get_float_env_def Let_def not_le_zero_iff split: option.splits
      dest: le_zero_not_gt)

text \<open>
  What does hold of \<^verbatim>\<open>_get_float_env\<close>: an override that \<^verbatim>\<open>float()\<close> rejects, or whose value is
  \<^verbatim>\<open><= 0\<close>, is replaced by the default.
\<close>

theorem invalid_override_replaced:
  assumes "getenv ext name = Some raw"
    and "float_builtin ext raw = None \<or> (\<exists>v. float_builtin ext raw = Some v \<and> float_le_zero v)"
  shows "fst (get_float_env ext s name dflt) = dflt"
  using assms by (auto simp: get_float_env_def Let_def split: option.splits)

theorem invalid_override_replaced_witness:
  "getenv (interval_ext ''-5'') ''CONTENT_UNDERSTANDING_POLL_INTERVAL_SECONDS'' = Some ''-5''
   \<and> float_builtin (interval_ext ''-5'') ''-5'' = Some (Finite (- 5))
   \<and> float_builtin (interval_ext ''abc'') ''abc'' = None
   \<and> fst (get_float_env (interval_ext ''-5'') fresh
            ''CONTENT_UNDERSTANDING_POLL_INTERVAL_SECONDS'' DEFAULT_POLL_INTERVAL_SECONDS)
       = DEFAULT_POLL_INTERVAL_SECONDS
   \<and> fst (get_float_env (interval_ext ''abc'') fresh
            ''CONTENT_UNDERSTANDING_POLL_INTERVAL_SECONDS'' DEFAULT_POLL_INTERVAL_SECONDS)
       = DEFAULT_POLL_INTERVAL_SECONDS"
proof -
  have g5: "getenv (interval_ext ''-5'') ''CONTENT_UNDERSTANDING_POLL_INTERVAL_SECONDS''
              = Some ''-5''"
    by (simp add: interval_ext_def)
  have f5: "float_builtin (interval_ext ''-5'') ''-5'' = Some (Finite (- 5))"
    by (simp add: interval_ext_def sample_ext_def)
  have ga: "getenv (interval_ext ''abc'') ''CONTENT_UNDERSTANDING_POLL_INTERVAL_SECONDS''
              = Some ''abc''"
    by (simp add: interval_ext_def)
  have fa: "float_builtin (interval_ext ''abc'') ''abc'' = None"
    by (simp add: interval_ext_def sample_ext_def)
  have h5: "float_builtin (interval_ext ''-5'') ''-5'' = None
            \<or> (\<exists>v. float_builtin (interval_ext ''-5'') ''-5'' = Some v \<and> float_le_zero v)"
    using f5 by simp
  have ha: "float_builtin (interval_ext ''abc'') ''abc'' = None
            \<or> (\<exists>v. float_builtin (interval_ext ''abc'') ''abc'' = Some v \<and> float_le_zero v)"
    using fa by simp
  show ?thesis
    using g5 f5 fa invalid_override_replaced [OF g5 h5, of fresh DEFAULT_POLL_INTERVAL_SECONDS]
      invalid_override_replaced [OF ga ha, of fresh DEFAULT_POLL_INTERVAL_SECONDS]
    by simp
qed

end
